theory Spec2Isabelle
  imports Main
begin

section \<open>The agent driver script \<open>main.py\<close>\<close>

text \<open>
  The script asks the operator for a task and for a yes/no reply, optionally runs one
  planning invocation of the external \<open>claude\<close> command, and then loops: read
  \<open>agent_state/agent_state.json\<close>, run the command with the prompt found there, test the
  status found there. Everything the script touches outside its own variables (the
  operator's input, the state file, the external command) is part of an explicit world
  that each function takes and returns.
\<close>

subsection \<open>Python values and exceptions\<close>

text \<open>
  The exceptions that can travel through the script. \<open>OSError\<close> stands for the operating
  system errors of \<open>open\<close> other than a missing file (no permission, a directory in the
  way): none of them is a subclass of \<open>FileNotFoundError\<close> or \<open>JSONDecodeError\<close>.
\<close>

datatype exn =
    EOFError
  | FileNotFoundError
  | OSError
  | UnicodeDecodeError
  | JSONDecodeError
  | TypeError
  | KeyError
  | ValueError
  | RecursionError

text \<open>
  What \<open>json.load\<close> can return: \<open>None\<close>, a bool, a number, a str, a list or a dict.
  A dict is kept as its items; \<open>json.load\<close> has settled duplicate keys before the script
  sees the dict. A float is kept as the literal of the file: the script never computes
  with a number.
\<close>

datatype jvalue =
    JNull
  | JBool bool
  | JInt int
  | JFloat string
  | JStr string
  | JArr "jvalue list"
  | JObj "(string \<times> jvalue) list"

text \<open>
  \<open>state[key]\<close> with a str key: a dict looks the key up and raises \<open>KeyError\<close> when it
  is missing; every other value (\<open>None\<close>, bool, number, str, list) raises \<open>TypeError\<close>.
\<close>

definition subscript :: "jvalue \<Rightarrow> string \<Rightarrow> exn + jvalue" where
  "subscript v key =
     (case v of
        JObj items \<Rightarrow> (case map_of items key of None \<Rightarrow> Inl KeyError | Some x \<Rightarrow> Inr x)
      | _ \<Rightarrow> Inl TypeError)"

subsection \<open>The world outside the script\<close>

text \<open>
  The state file, as \<open>open\<close> followed by \<open>json.load\<close> finds it: no file, a file that
  cannot be opened, bytes that are not text in the locale's encoding, text that is not
  JSON, JSON that \<open>json.load\<close> refuses all the same (brackets nested beyond the
  recursion limit, an integer literal with more digits than the conversion limit
  allows), or a document that \<open>json.load\<close> returns as a value.
\<close>

datatype state_file =
    Missing
  | Unopenable
  | Undecodable
  | Malformed
  | Too_deep
  | Too_many_digits
  | Document jvalue

definition json_load_file :: "state_file \<Rightarrow> exn + jvalue" where
  "json_load_file f =
     (case f of
        Missing \<Rightarrow> Inl FileNotFoundError
      | Unopenable \<Rightarrow> Inl OSError
      | Undecodable \<Rightarrow> Inl UnicodeDecodeError
      | Malformed \<Rightarrow> Inl JSONDecodeError
      | Too_deep \<Rightarrow> Inl RecursionError
      | Too_many_digits \<Rightarrow> Inl ValueError
      | Document v \<Rightarrow> Inr v)"

text \<open>The \<open>CompletedProcess\<close> of \<open>subprocess.run(..., capture_output=True, text=True)\<close>.\<close>

record completed_process =
  returncode :: int
  stdout :: string
  stderr :: string

text \<open>
  One run of the external command: it never exits, or \<open>subprocess.run\<close> raises (the
  executable is not found, an argument holds a NUL, the output is not text), or it exits
  and leaves a state file and a memory of its own behind. The command is a parameter of
  the model: given its memory, its argument vector and the state file it finds.
\<close>

datatype 'm proc =
    Hangs
  | RunRaises exn
  | Exits completed_process state_file 'm

type_synonym 'm command = "'m \<Rightarrow> string list \<Rightarrow> state_file \<Rightarrow> 'm proc"

text \<open>
  What a script shows and does, in order. \<open>Slept\<close> is a call of \<open>time.sleep\<close>, with
  its duration in milliseconds: \<open>test_sticky.py\<close> pauses that way between its messages.
\<close>

datatype message =
    Running jvalue
  | Generating_plan
  | Text string
  | Starting int
  | Stopping

datatype event =
    Deprecation_warning
  | Deprecation_notice
  | Asked string
  | Printed message
  | Loaded "exn + jvalue"
  | Spawned "string list"
  | Slept nat

record 'm world =
  stdin :: "string list"
  state_file :: state_file
  memory :: 'm
  trace :: "event list"

definition emit :: "event \<Rightarrow> 'm world \<Rightarrow> 'm world" where
  "emit e w = w\<lparr>trace := trace w @ [e]\<rparr>"

text \<open>\<open>input(prompt)\<close>: shows the prompt, returns the next line, \<open>EOFError\<close> at the end.\<close>

definition input :: "string \<Rightarrow> 'm world \<Rightarrow> (exn + string) \<times> 'm world" where
  "input prompt w =
     (let w1 = emit (Asked prompt) w in
      case stdin w1 of
        [] \<Rightarrow> (Inl EOFError, w1)
      | line # rest \<Rightarrow> (Inr line, w1\<lparr>stdin := rest\<rparr>))"

subsection \<open>\<open>str.strip\<close> and \<open>str.lower\<close>\<close>

text \<open>
  A character is a code point below 256. \<open>str.isspace\<close> holds there of the code points
  9 to 13, 28 to 32, 133 and 160; \<open>str.lower\<close> moves A to Z and the capital letters
  192 to 222 (not the multiplication sign 215) up by 32.
\<close>

definition isspace :: "char \<Rightarrow> bool" where
  "isspace c =
     (let n = (of_char c :: nat) in
      (9 \<le> n \<and> n \<le> 13) \<or> (28 \<le> n \<and> n \<le> 32) \<or> n = 133 \<or> n = 160)"

definition strip :: "string \<Rightarrow> string" where
  "strip s = rev (dropWhile isspace (rev (dropWhile isspace s)))"

definition lower_char :: "char \<Rightarrow> char" where
  "lower_char c =
     (let n = (of_char c :: nat) in
      if (65 \<le> n \<and> n \<le> 90) \<or> (192 \<le> n \<and> n \<le> 222 \<and> n \<noteq> 215)
      then char_of (n + 32) else c)"

definition lower :: "string \<Rightarrow> string" where
  "lower s = map lower_char s"

subsection \<open>The functions of the script\<close>

definition system_prompt :: string where
  "system_prompt = ''You are an expert software engineer with deep knowledge of TDD, Python, Typescript. Execute the following tasks with surgical precision while taking care not to overengineer solutions.''"

definition cmd :: "string \<Rightarrow> string list" where
  "cmd prompt =
     [''claude'', ''-p'', prompt,
      ''--output-format'', ''text'',
      ''--append-system-prompt'', system_prompt,
      ''--allowedTools'', ''mcp__linear-server__*'', ''mcp__context7__*'',
      ''Bash'', ''Read'', ''Write'', ''Edit'', ''Remove'']"

text \<open>
  \<open>run_claude_code(prompt)\<close>. The prompt is whatever the caller found in the state file;
  \<open>subprocess.run\<close> raises \<open>TypeError\<close> on an argument that is not a str. The result
  \<open>None\<close> is a call that never returns, because the command never exits.
\<close>

definition run_claude_code ::
  "'m command \<Rightarrow> jvalue \<Rightarrow> 'm world \<Rightarrow> ((exn + string) \<times> 'm world) option" where
  "run_claude_code claude prompt w =
     (let w1 = emit (Printed (Running prompt)) w in
      case prompt of
        JStr p \<Rightarrow>
          (let w2 = emit (Spawned (cmd p)) w1 in
           case claude (memory w2) (cmd p) (state_file w2) of
             Hangs \<Rightarrow> None
           | RunRaises e \<Rightarrow> Some (Inl e, w2)
           | Exits result f m \<Rightarrow> Some (Inr (stdout result), w2\<lparr>state_file := f, memory := m\<rparr>))
      | _ \<Rightarrow> Some (Inl TypeError, w1))"

text \<open>
  \<open>check_state()\<close>: the two exceptions of the \<open>except\<close> clause become \<open>None\<close>, every
  other one goes on to the caller.
\<close>

definition check_state :: "'m world \<Rightarrow> (exn + jvalue) \<times> 'm world" where
  "check_state w =
     (let r = json_load_file (state_file w);
          w1 = emit (Loaded r) w in
      case r of
        Inr state \<Rightarrow> (Inr state, w1)
      | Inl e \<Rightarrow>
          (if e = FileNotFoundError \<or> e = JSONDecodeError then (Inr JNull, w1)
           else (Inl e, w1)))"

subsection \<open>The top level of the script\<close>

text \<open>
  \<open>NEED_PLAN\<close>, from the operator's second reply.
\<close>

definition NEED_PLAN :: "string \<Rightarrow> bool" where
  "NEED_PLAN reply = (lower (strip reply) = ''true'')"

text \<open>
  The \<open>if NEED_PLAN:\<close> block: one invocation with \<open>/make_plan\<close> and the task, its
  output printed.
\<close>

definition plan_phase ::
  "'m command \<Rightarrow> bool \<Rightarrow> string \<Rightarrow> 'm world \<Rightarrow> ((exn + unit) \<times> 'm world) option" where
  "plan_phase claude need_plan linear_issue w =
     (if need_plan then
        (let w1 = emit (Printed Generating_plan) w in
         case run_claude_code claude (JStr (''/make_plan '' @ linear_issue)) w1 of
           None \<Rightarrow> None
         | Some (Inl e, w2) \<Rightarrow> Some (Inl e, w2)
         | Some (Inr output, w2) \<Rightarrow> Some (Inr (), emit (Printed (Text output)) w2))
      else Some (Inr (), w))"

text \<open>
  One pass through the body of \<open>while continue_flag:\<close>, from the value of \<open>iteration\<close>
  before it to the values of \<open>continue_flag\<close> and \<open>iteration\<close> after it. The status
  tested at the end is the one of \<open>state\<close>, the value \<open>check_state()\<close> returned at the
  top of the pass.
\<close>

definition loop_body ::
  "'m command \<Rightarrow> int \<Rightarrow> 'm world \<Rightarrow> ((exn + bool \<times> int) \<times> 'm world) option" where
  "loop_body claude iteration0 w =
     (let iteration = iteration0 + 1 in
      case check_state w of
        (Inl e, w1) \<Rightarrow> Some (Inl e, w1)
      | (Inr state, w1) \<Rightarrow>
          (let w2 = emit (Printed (Starting iteration)) w1 in
           case subscript state ''next_step_prompt'' of
             Inl e \<Rightarrow> Some (Inl e, w2)
           | Inr prompt \<Rightarrow>
               (case run_claude_code claude prompt w2 of
                  None \<Rightarrow> None
                | Some (Inl e, w3) \<Rightarrow> Some (Inl e, w3)
                | Some (Inr output, w3) \<Rightarrow>
                    (let w4 = emit (Printed (Text output)) w3 in
                     case subscript state ''status'' of
                       Inl e \<Rightarrow> Some (Inl e, w4)
                     | Inr status \<Rightarrow>
                         (if status = JStr ''completed''
                          then Some (Inr (False, iteration), emit (Printed Stopping) w4)
                          else Some (Inr (True, iteration), w4))))))"

text \<open>
  The \<open>while\<close> loop. It has no bound, so it is a partial function: \<open>None\<close> is a run that
  never leaves the loop (or never comes back from the command), \<open>Some (Inl e, w)\<close> one
  that ends in the unhandled exception \<open>e\<close>, \<open>Some (Inr (), w)\<close> one that falls out of
  the loop.
\<close>

partial_function (option) while_loop ::
  "'m command \<Rightarrow> bool \<Rightarrow> int \<Rightarrow> 'm world \<Rightarrow> ((exn + unit) \<times> 'm world) option" where
  "while_loop claude continue_flag iteration w =
     (if continue_flag then
        (case loop_body claude iteration w of
           None \<Rightarrow> None
         | Some (Inl e, w1) \<Rightarrow> Some (Inl e, w1)
         | Some (Inr (continue_flag1, iteration1), w1) \<Rightarrow>
             while_loop claude continue_flag1 iteration1 w1)
      else Some (Inr (), w))"

declare while_loop.simps [code]

text \<open>The script from its first line to its last.\<close>

definition main :: "'m command \<Rightarrow> 'm world \<Rightarrow> ((exn + unit) \<times> 'm world) option" where
  "main claude w =
     (let w0 = emit Deprecation_notice (emit Deprecation_warning w) in
      case input ''Enter the initial prompt for Claude Code: '' w0 of
        (Inl e, w1) \<Rightarrow> Some (Inl e, w1)
      | (Inr linear_issue, w1) \<Rightarrow>
          (case input ''Do you need a plan? (True/False): '' w1 of
             (Inl e, w2) \<Rightarrow> Some (Inl e, w2)
           | (Inr reply, w2) \<Rightarrow>
               (case plan_phase claude (NEED_PLAN reply) linear_issue w2 of
                  None \<Rightarrow> None
                | Some (Inl e, w3) \<Rightarrow> Some (Inl e, w3)
                | Some (Inr _, w3) \<Rightarrow> while_loop claude True 0 w3)))"

text \<open>
  The same loop with a budget of passes, to look at the runs that never end:
  \<open>Some (Inr (True, i), w)\<close> is a loop still running when the budget is used up.
\<close>

fun passes ::
  "'m command \<Rightarrow> nat \<Rightarrow> bool \<Rightarrow> int \<Rightarrow> 'm world \<Rightarrow> ((exn + bool \<times> int) \<times> 'm world) option" where
  "passes claude 0 continue_flag iteration w = Some (Inr (continue_flag, iteration), w)"
| "passes claude (Suc n) continue_flag iteration w =
     (if continue_flag then
        (case loop_body claude iteration w of
           None \<Rightarrow> None
         | Some (Inl e, w1) \<Rightarrow> Some (Inl e, w1)
         | Some (Inr (continue_flag1, iteration1), w1) \<Rightarrow>
             passes claude n continue_flag1 iteration1 w1)
      else Some (Inr (False, iteration), w))"

subsection \<open>Reading a trace\<close>

text \<open>The reads of the state file and the runs of the command in a trace, in order.\<close>

fun reads_and_runs :: "event list \<Rightarrow> event list" where
  "reads_and_runs [] = []"
| "reads_and_runs (Loaded r # es) = Loaded r # reads_and_runs es"
| "reads_and_runs (Spawned argv # es) = Spawned argv # reads_and_runs es"
| "reads_and_runs (e # es) = reads_and_runs es"

text \<open>The pauses in a trace.\<close>

fun pauses :: "event list \<Rightarrow> nat list" where
  "pauses [] = []"
| "pauses (Slept ms # es) = ms # pauses es"
| "pauses (e # es) = pauses es"

text \<open>What the script has shown once both questions are answered.\<close>

definition preamble :: "event list" where
  "preamble =
     [Deprecation_warning, Deprecation_notice,
      Asked ''Enter the initial prompt for Claude Code: '',
      Asked ''Do you need a plan? (True/False): '']"

text \<open>
  What one pass through the loop body adds to the trace when the state read is \<open>state\<close>,
  its prompt is the str \<open>p\<close> and the command exits with \<open>result\<close>; the closing
  message of a pass that stops the loop comes after these.
\<close>

definition pass_events :: "int \<Rightarrow> jvalue \<Rightarrow> string \<Rightarrow> completed_process \<Rightarrow> event list" where
  "pass_events i state p result =
     [Loaded (Inr state), Printed (Starting (i + 1)), Printed (Running (JStr p)),
      Spawned (cmd p), Printed (Text (stdout result))]"

subsection \<open>Sample runs\<close>

text \<open>
  A world at the start of the script, three records (two with a prompt, one with a
  status and nothing else), and four commands: one that fails with exit status 1 and
  leaves the state file alone, one that never exits, one that writes a whole record
  with the status \<open>completed\<close>, one that writes the status alone.
\<close>

definition at_start :: "string list \<Rightarrow> state_file \<Rightarrow> unit world" where
  "at_start lines f = \<lparr>stdin = lines, state_file = f, memory = (), trace = []\<rparr>"

definition in_progress :: jvalue where
  "in_progress =
     JObj [(''next_step_prompt'', JStr ''run tests''), (''status'', JStr ''in_progress'')]"

definition completed :: jvalue where
  "completed =
     JObj [(''next_step_prompt'', JStr ''run tests''), (''status'', JStr ''completed'')]"

definition bare_status :: "string \<Rightarrow> jvalue" where
  "bare_status label = JObj [(''status'', JStr label)]"

definition failing_claude :: "unit command" where
  "failing_claude m argv f =
     Exits \<lparr>returncode = 1, stdout = ''boom'', stderr = ''error''\<rparr> f ()"

definition hanging_claude :: "unit command" where
  "hanging_claude m argv f = Hangs"

definition finishing_claude :: "unit command" where
  "finishing_claude m argv f =
     Exits \<lparr>returncode = 0, stdout = ''done'', stderr = []\<rparr> (Document completed) ()"

definition status_only_claude :: "unit command" where
  "status_only_claude m argv f =
     Exits \<lparr>returncode = 0, stdout = ''done'', stderr = []\<rparr>
       (Document (JObj [(''status'', JStr ''completed'')])) ()"

section \<open>Properties\<close>

subsection \<open>One pass through the loop\<close>

text \<open>
  A pass over a state that is a dict with a str prompt and a status, with a command
  that exits: the flag that comes back is false exactly for the status \<open>completed\<close>.
\<close>

lemma loop_body_usable:
  assumes "state_file w = Document state"
    and "subscript state ''next_step_prompt'' = Inr (JStr p)"
    and "subscript state ''status'' = Inr status"
    and "claude (memory w) (cmd p) (state_file w) = Exits result f m"
  shows "loop_body claude i w =
           Some (Inr (status \<noteq> JStr ''completed'', i + 1),
                 w\<lparr>state_file := f, memory := m,
                   trace := trace w @ pass_events i state p result
                      @ (if status = JStr ''completed'' then [Printed Stopping] else [])\<rparr>)"
  using assms
  by (simp add: loop_body_def check_state_def json_load_file_def run_claude_code_def
      emit_def Let_def pass_events_def)

text \<open>
  Whatever a pass does, it starts by reading the state file, and it can clear the flag
  only on a state whose status is \<open>completed\<close>.
\<close>

lemma run_claude_code_trace:
  "run_claude_code claude prompt w = Some (r, w1) \<Longrightarrow> \<exists>new. trace w1 = trace w @ new \<and> (\<forall>s. Loaded s \<notin> set new)"
  by (auto simp add: run_claude_code_def emit_def Let_def split: jvalue.splits proc.splits)

lemma loop_body_trace:
  "loop_body claude i w = Some (r, w1) \<Longrightarrow>
     \<exists>new. trace w1 = trace w @ Loaded (json_load_file (state_file w)) # new"
  by (auto simp add: loop_body_def check_state_def emit_def Let_def
      split: sum.splits option.splits if_splits prod.splits dest!: run_claude_code_trace)

lemma loop_body_stops:
  "loop_body claude i w = Some (Inr (False, j), w1) \<Longrightarrow>
     \<exists>state. json_load_file (state_file w) = Inr state \<and> subscript state ''status'' = Inr (JStr ''completed'')"
  by (auto simp add: loop_body_def check_state_def emit_def Let_def subscript_def
      split: sum.splits option.splits if_splits prod.splits)

text \<open>
  What a pass adds to the trace, whatever the state and the command: one read of the
  state file, then at most one run of the command, and no pause.
\<close>

lemma pauses_append: "pauses (xs @ ys) = pauses xs @ pauses ys"
  by (induction xs rule: pauses.induct) simp_all

lemma reads_and_runs_append:
  "reads_and_runs (xs @ ys) = reads_and_runs xs @ reads_and_runs ys"
  by (induction xs rule: reads_and_runs.induct) simp_all

lemma run_claude_code_effects:
  "run_claude_code claude prompt w = Some (r, w1) \<Longrightarrow>
     \<exists>new. trace w1 = trace w @ new \<and> pauses new = []
       \<and> (reads_and_runs new = [] \<or> (\<exists>argv. reads_and_runs new = [Spawned argv]))"
  by (auto simp add: run_claude_code_def emit_def Let_def split: jvalue.splits proc.splits)

lemma loop_body_effects:
  assumes "loop_body claude i w = Some (r, w1)"
  shows "\<exists>new. trace w1 = trace w @ new \<and> pauses new = []
       \<and> (reads_and_runs new = [Loaded (json_load_file (state_file w))]
          \<or> (\<exists>argv. reads_and_runs new = [Loaded (json_load_file (state_file w)), Spawned argv]))"
  using assms
  by (auto simp add: loop_body_def check_state_def emit_def Let_def reads_and_runs_append pauses_append
      split: sum.splits option.splits if_splits prod.splits dest!: run_claude_code_effects)

subsection \<open>The loop as a whole\<close>

lemma while_loop_step:
  "loop_body claude i w = Some (Inr (flag, j), w1) \<Longrightarrow>
     while_loop claude True i w = while_loop claude flag j w1"
  by (subst while_loop.simps) simp

lemma while_loop_done: "while_loop claude False i w = Some (Inr (), w)"
  by (subst while_loop.simps) simp

text \<open>
  A run that falls out of the loop has read a state with the status \<open>completed\<close>
  on the way.
\<close>

lemma while_loop_exit_seen:
  assumes "while_loop claude flag i w = Some y"
  shows "if flag
         then fst y = Inr () \<longrightarrow>
              (\<exists>new state. trace (snd y) = trace w @ new \<and> Loaded (Inr state) \<in> set new
                 \<and> subscript state ''status'' = Inr (JStr ''completed''))
         else y = (Inr (), w)"
proof (rule while_loop.raw_induct[where P = "\<lambda>claude flag i w y. if flag
         then fst y = Inr () \<longrightarrow>
              (\<exists>new state. trace (snd y) = trace w @ new \<and> Loaded (Inr state) \<in> set new
                 \<and> subscript state ''status'' = Inr (JStr ''completed''))
         else y = (Inr (), w)", OF _ assms], goal_cases)
  case (1 loop claude flag i w y)
  show ?case
  proof (cases flag)
    case False
    with 1(2) show ?thesis by simp
  next
    case True
    show ?thesis
    proof (cases "loop_body claude i w")
      case None
      with True 1(2) show ?thesis by simp
    next
      case (Some rw)
      obtain r w1 where rw: "rw = (r, w1)" by (cases rw)
      from loop_body_trace Some rw obtain new1
        where tr: "trace w1 = trace w @ Loaded (json_load_file (state_file w)) # new1"
        by blast
      show ?thesis
      proof (cases r)
        case (Inl e)
        with True Some rw 1(2) show ?thesis by auto
      next
        case (Inr bi)
        obtain flag1 i1 where bi: "bi = (flag1, i1)" by (cases bi)
        from True Some rw Inr bi 1(2) have rec: "loop claude flag1 i1 w1 = Some y" by simp
        note ih = 1(1)[OF rec]
        show ?thesis
        proof (cases flag1)
          case True
          then show ?thesis using ih tr \<open>flag\<close> by auto
        next
          case False
          with ih have y: "y = (Inr (), w1)" by simp
          from Some rw Inr bi False have "loop_body claude i w = Some (Inr (False, i1), w1)"
            by simp
          from loop_body_stops[OF this] obtain state
            where "json_load_file (state_file w) = Inr state"
              and "subscript state ''status'' = Inr (JStr ''completed'')"
            by blast
          with y tr \<open>flag\<close> show ?thesis by auto
        qed
      qed
    qed
  qed
qed

text \<open>
  Where an invariant keeps the state usable and not completed, and the command exits
  each time, the loop gives no result, and any number of passes leaves it running.
\<close>

lemma while_loop_never_leaves:
  assumes "while_loop claude flag i w = Some y"
    and step: "\<And>m f. Inv m f \<Longrightarrow>
            \<exists>state p status result f' m'.
              f = Document state \<and> subscript state ''next_step_prompt'' = Inr (JStr p)
              \<and> subscript state ''status'' = Inr status \<and> status \<noteq> JStr ''completed''
              \<and> claude m (cmd p) f = Exits result f' m' \<and> Inv m' f'"
  shows "flag \<longrightarrow> \<not> Inv (memory w) (state_file w)"
proof -
  have "claude = claude \<longrightarrow> flag \<longrightarrow> \<not> Inv (memory w) (state_file w)"
  proof (rule while_loop.raw_induct[where P = "\<lambda>claude' flag i w y.
         claude' = claude \<longrightarrow> flag \<longrightarrow> \<not> Inv (memory w) (state_file w)",
       OF _ assms(1)], goal_cases)
  case (1 loop claude' flag i w y)
  show ?case
  proof (intro impI notI)
    assume cl: "claude' = claude"
    assume flag: flag and inv: "Inv (memory w) (state_file w)"
    from step[OF inv] obtain state p status result f' m' where
      h: "state_file w = Document state" "subscript state ''next_step_prompt'' = Inr (JStr p)"
         "subscript state ''status'' = Inr status" "status \<noteq> JStr ''completed''"
         "claude (memory w) (cmd p) (state_file w) = Exits result f' m'" "Inv m' f'"
      by blast
    note lb = loop_body_usable[where claude = claude, OF h(1,2,3,5), of i]
    from 1(2) flag lb h(4) cl have rec: "loop claude True (i + 1)
       (w\<lparr>state_file := f', memory := m',
           trace := trace w @ pass_events i state p result\<rparr>) = Some y"
      by simp
    from 1(1)[OF rec] h(6) show False by simp
  qed
  qed
  then show ?thesis by simp
qed

lemma passes_keep_running:
  assumes step: "\<And>m f. Inv m f \<Longrightarrow>
            \<exists>state p status result f' m'.
              f = Document state \<and> subscript state ''next_step_prompt'' = Inr (JStr p)
              \<and> subscript state ''status'' = Inr status \<and> status \<noteq> JStr ''completed''
              \<and> claude m (cmd p) f = Exits result f' m' \<and> Inv m' f'"
  shows "Inv (memory w) (state_file w) \<Longrightarrow>
         \<exists>w'. passes claude n True i w = Some (Inr (True, i + int n), w')
              \<and> Inv (memory w') (state_file w')"
proof (induction n arbitrary: i w)
  case 0
  then show ?case by simp
next
  case (Suc n)
  from step[OF Suc.prems] obtain state p status result f' m' where
    h: "state_file w = Document state" "subscript state ''next_step_prompt'' = Inr (JStr p)"
       "subscript state ''status'' = Inr status" "status \<noteq> JStr ''completed''"
       "claude (memory w) (cmd p) (state_file w) = Exits result f' m'" "Inv m' f'"
    by blast
  note lb = loop_body_usable[where claude = claude, OF h(1,2,3,5), of i]
  let ?w1 = "w\<lparr>state_file := f', memory := m',
           trace := trace w @ pass_events i state p result\<rparr>"
  from h(6) have "Inv (memory ?w1) (state_file ?w1)" by simp
  from Suc.IH[OF this, of "i + 1"] obtain w' where
    "passes claude n True (i + 1) ?w1 = Some (Inr (True, i + 1 + int n), w')"
    "Inv (memory w') (state_file w')" by blast
  with lb h(4) show ?case by (simp add: add.assoc add.commute)
qed

text \<open>
  No run of the loop pauses, neither one that ends nor the passes of one that does not.
\<close>

lemma passes_quiet:
  "passes claude n flag i w = Some (r, w') \<Longrightarrow>
     \<exists>new. trace w' = trace w @ new \<and> pauses new = []"
proof (induction n arbitrary: flag i w)
  case 0
  then show ?case by simp
next
  case (Suc n)
  show ?case
  proof (cases flag)
    case False
    with Suc.prems show ?thesis by simp
  next
    case True
    show ?thesis
    proof (cases "loop_body claude i w")
      case None
      with True Suc.prems show ?thesis by simp
    next
      case (Some rw)
      obtain r1 w1 where rw: "rw = (r1, w1)" by (cases rw)
      from loop_body_effects Some rw obtain new1
        where n1: "trace w1 = trace w @ new1" "pauses new1 = []" by blast
      show ?thesis
      proof (cases r1)
        case (Inl e)
        with True Some rw Suc.prems n1 show ?thesis by auto
      next
        case (Inr bi)
        obtain flag1 i1 where "bi = (flag1, i1)" by (cases bi)
        with True Some rw Inr Suc.prems have "passes claude n flag1 i1 w1 = Some (r, w')"
          by simp
        from Suc.IH[OF this] obtain new2 where "trace w' = trace w1 @ new2" "pauses new2 = []"
          by blast
        with n1 have "trace w' = trace w @ (new1 @ new2) \<and> pauses (new1 @ new2) = []"
          by (simp add: pauses_append)
        then show ?thesis by blast
      qed
    qed
  qed
qed

lemma while_loop_quiet:
  assumes "while_loop claude flag i w = Some y"
  shows "\<exists>new. trace (snd y) = trace w @ new \<and> pauses new = []"
proof (rule while_loop.raw_induct[where P = "\<lambda>claude flag i w y.
         \<exists>new. trace (snd y) = trace w @ new \<and> pauses new = []", OF _ assms], goal_cases)
  case (1 loop claude flag i w y)
  show ?case
  proof (cases flag)
    case False
    with 1(2) show ?thesis by auto
  next
    case True
    show ?thesis
    proof (cases "loop_body claude i w")
      case None
      with True 1(2) show ?thesis by simp
    next
      case (Some rw)
      obtain r1 w1 where rw: "rw = (r1, w1)" by (cases rw)
      from loop_body_effects Some rw obtain new1
        where n1: "trace w1 = trace w @ new1" "pauses new1 = []" by blast
      show ?thesis
      proof (cases r1)
        case (Inl e)
        with True Some rw 1(2) n1 show ?thesis by auto
      next
        case (Inr bi)
        obtain flag1 i1 where "bi = (flag1, i1)" by (cases bi)
        with True Some rw Inr 1(2) have "loop claude flag1 i1 w1 = Some y" by simp
        from 1(1)[OF this] obtain new2 where "trace (snd y) = trace w1 @ new2" "pauses new2 = []"
          by blast
        with n1 have "trace (snd y) = trace w @ (new1 @ new2) \<and> pauses (new1 @ new2) = []"
          by (simp add: pauses_append)
        then show ?thesis by blast
      qed
    qed
  qed
qed

text \<open>
  A record with a status and no prompt ends the loop in \<open>KeyError\<close> at once, whatever
  the status says.
\<close>

lemma bare_status_raises:
  "while_loop claude True i \<lparr>stdin = ins, state_file = Document (bare_status label), memory = m, trace = tr\<rparr>
     = Some (Inl KeyError,
         \<lparr>stdin = ins, state_file = Document (bare_status label), memory = m,
          trace = tr @ [Loaded (Inr (bare_status label)), Printed (Starting (i + 1))]\<rparr>)"
  by (subst while_loop.simps)
     (simp add: loop_body_def check_state_def json_load_file_def emit_def Let_def
        subscript_def bare_status_def)

lemma main_asks:
  assumes "stdin w = linear_issue # reply # rest"
  shows "main claude w =
           (case plan_phase claude (NEED_PLAN reply) linear_issue
                   (w\<lparr>stdin := rest, trace := trace w @ preamble\<rparr>) of
              None \<Rightarrow> None
            | Some (Inl e, w3) \<Rightarrow> Some (Inl e, w3)
            | Some (Inr _, w3) \<Rightarrow> while_loop claude True 0 w3)"
  using assms by (cases w) (simp add: main_def input_def emit_def Let_def preamble_def)

subsection \<open>The state reader\<close>

text \<open>
  C5 (as amended). \<open>check_state\<close> returns \<open>None\<close>, and raises nothing, on a
  missing state file and on text that \<open>json.load\<close> rejects with \<open>JSONDecodeError\<close>,
  and it returns the value when \<open>json.load\<close> returns one. Every other fault is raised
  to the caller: a file that cannot be opened, bytes that are not text in the encoding,
  JSON that \<open>json.load\<close> refuses with \<open>RecursionError\<close> or \<open>ValueError\<close>.
\<close>

theorem check_state_outcomes:
  "fst (check_state w) =
     (case state_file w of
        Missing \<Rightarrow> Inr JNull
      | Unopenable \<Rightarrow> Inl OSError
      | Undecodable \<Rightarrow> Inl UnicodeDecodeError
      | Malformed \<Rightarrow> Inr JNull
      | Too_deep \<Rightarrow> Inl RecursionError
      | Too_many_digits \<Rightarrow> Inl ValueError
      | Document v \<Rightarrow> Inr v)"
  by (cases "state_file w") (simp_all add: check_state_def json_load_file_def Let_def)

text \<open>
  C5 as first stated fails: content that is not JSON because it is not even text makes
  \<open>check_state\<close> raise \<open>UnicodeDecodeError\<close>, which the \<open>except\<close> clause does not
  name.
\<close>

theorem check_state_raises_on_undecodable:
  "fst (check_state (at_start [] Undecodable)) = Inl UnicodeDecodeError"
  by (simp add: check_state_def json_load_file_def Let_def at_start_def)

text \<open>
  C8. Reading is idempotent: \<open>check_state\<close> leaves the state file as it found it, and a
  second call right after the first returns the same value (or raises the same
  exception).
\<close>

theorem check_state_idempotent:
  "fst (check_state (snd (check_state w))) = fst (check_state w)
   \<and> state_file (snd (check_state w)) = state_file w"
  by (simp add: check_state_def emit_def Let_def split: sum.splits)

subsection \<open>The agent invoker\<close>

text \<open>
  C6. \<open>run_claude_code\<close> returns the captured standard output of the command once
  it has exited, whatever its exit status: the return code does not occur in the
  result. It does not return while the command has not exited, and a returned text is
  always the standard output of a command that exited.
\<close>

theorem run_claude_code_returns_stdout:
  "(claude (memory w) (cmd p) (state_file w)
        = Exits \<lparr>returncode = rc, stdout = out, stderr = err\<rparr> f m \<longrightarrow>
      run_claude_code claude (JStr p) w
        = Some (Inr out, w\<lparr>state_file := f, memory := m,
                           trace := trace w @ [Printed (Running (JStr p)), Spawned (cmd p)]\<rparr>))
   \<and> (claude (memory w) (cmd p) (state_file w) = Hangs \<longrightarrow>
        run_claude_code claude (JStr p) w = None)
   \<and> (\<forall>captured w'. run_claude_code claude (JStr p) w = Some (Inr captured, w') \<longrightarrow>
        (\<exists>result f m. claude (memory w) (cmd p) (state_file w) = Exits result f m
           \<and> captured = stdout result))"
  by (auto simp add: run_claude_code_def emit_def Let_def split: proc.splits)

theorem run_claude_code_returns_stdout_witness:
  "run_claude_code failing_claude (JStr ''run tests'') (at_start [] Missing)
     = Some (Inr ''boom'',
         \<lparr>stdin = [], state_file = Missing, memory = (),
          trace = [Printed (Running (JStr ''run tests'')), Spawned (cmd ''run tests'')]\<rparr>)
   \<and> run_claude_code hanging_claude (JStr ''run tests'') (at_start [] Missing) = None
   \<and> (\<exists>result f m. failing_claude () (cmd ''run tests'') Missing = Exits result f m
         \<and> ''boom'' = stdout result)"
proof -
  let ?w = "at_start [] Missing"
  have exits: "failing_claude (memory ?w) (cmd ''run tests'') (state_file ?w)
      = Exits \<lparr>returncode = 1, stdout = ''boom'', stderr = ''error''\<rparr> Missing ()"
    by (simp add: failing_claude_def at_start_def)
  have hangs: "hanging_claude (memory ?w) (cmd ''run tests'') (state_file ?w) = Hangs"
    by (simp add: hanging_claude_def)
  from run_claude_code_returns_stdout
         [where claude = failing_claude, THEN conjunct1, THEN mp, OF exits]
  have returned: "run_claude_code failing_claude (JStr ''run tests'') ?w
     = Some (Inr ''boom'',
         \<lparr>stdin = [], state_file = Missing, memory = (),
          trace = [Printed (Running (JStr ''run tests'')), Spawned (cmd ''run tests'')]\<rparr>)"
    by (simp add: at_start_def)
  from run_claude_code_returns_stdout
         [where claude = hanging_claude, THEN conjunct2, THEN conjunct1, THEN mp, OF hangs]
  have blocked: "run_claude_code hanging_claude (JStr ''run tests'') ?w = None" .
  from run_claude_code_returns_stdout
         [where claude = failing_claude, THEN conjunct2, THEN conjunct2,
          THEN spec, THEN spec, THEN mp, OF returned]
  have "\<exists>result f m. failing_claude () (cmd ''run tests'') Missing = Exits result f m
         \<and> ''boom'' = stdout result"
    by (simp add: at_start_def)
  with returned blocked show ?thesis by simp
qed

subsection \<open>The operator's replies\<close>

lemma of_char_lower_char:
  "(of_char (lower_char c) :: nat) =
     (if (65 \<le> (of_char c :: nat) \<and> (of_char c :: nat) \<le> 90)
         \<or> (192 \<le> (of_char c :: nat) \<and> (of_char c :: nat) \<le> 222 \<and> (of_char c :: nat) \<noteq> 215)
      then of_char c + 32 else of_char c)"
  by (simp add: lower_char_def Let_def)

lemma lower_char_eq_iff:
  assumes "(of_char x :: nat) = k" and "(of_char X :: nat) = k - 32"
    and "97 \<le> k" and "k \<le> 122"
  shows "lower_char c = x \<longleftrightarrow> c = x \<or> c = X"
proof -
  have "lower_char c = x \<longleftrightarrow> (of_char (lower_char c) :: nat) = k"
    using assms(1) by (metis of_char_eq_iff)
  also have "\<dots> \<longleftrightarrow> (of_char c :: nat) = k \<or> (of_char c :: nat) = k - 32"
    using assms(3,4) by (auto simp add: of_char_lower_char)
  also have "\<dots> \<longleftrightarrow> c = x \<or> c = X"
    using assms(1,2) by (metis of_char_eq_iff)
  finally show ?thesis .
qed

lemma lower_t: "lower_char c = CHR ''t'' \<longleftrightarrow> c = CHR ''t'' \<or> c = CHR ''T''"
  by (rule lower_char_eq_iff[where k = 116]) simp_all

lemma lower_r: "lower_char c = CHR ''r'' \<longleftrightarrow> c = CHR ''r'' \<or> c = CHR ''R''"
  by (rule lower_char_eq_iff[where k = 114]) simp_all

lemma lower_u: "lower_char c = CHR ''u'' \<longleftrightarrow> c = CHR ''u'' \<or> c = CHR ''U''"
  by (rule lower_char_eq_iff[where k = 117]) simp_all

lemma lower_e: "lower_char c = CHR ''e'' \<longleftrightarrow> c = CHR ''e'' \<or> c = CHR ''E''"
  by (rule lower_char_eq_iff[where k = 101]) simp_all

lemma strip_decomp:
  "s = takeWhile isspace s @ strip s @ rev (takeWhile isspace (rev (dropWhile isspace s)))"
proof -
  let ?r = "dropWhile isspace s"
  have "rev (takeWhile isspace (rev ?r) @ dropWhile isspace (rev ?r)) = ?r"
    by (simp only: takeWhile_dropWhile_id rev_rev_ident)
  then have "strip s @ rev (takeWhile isspace (rev ?r)) = ?r"
    by (simp only: rev_append strip_def)
  moreover have "s = takeWhile isspace s @ ?r" by simp
  ultimately show ?thesis by simp
qed

lemma strip_core:
  assumes "list_all isspace pre" and "list_all isspace post"
    and "\<not> isspace a" and "\<not> isspace d"
  shows "strip (pre @ a # mid @ d # post) = a # mid @ [d]"
proof -
  have "dropWhile isspace (pre @ a # mid @ d # post) = dropWhile isspace (a # mid @ d # post)"
    by (rule dropWhile_append2) (use assms(1) in \<open>simp add: list_all_iff\<close>)
  with assms(3) have 1: "dropWhile isspace (pre @ a # mid @ d # post) = a # mid @ d # post"
    by simp
  have "dropWhile isspace (rev post @ d # rev mid @ [a]) = dropWhile isspace (d # rev mid @ [a])"
    by (rule dropWhile_append2) (use assms(2) in \<open>simp add: list_all_iff\<close>)
  with assms(4) have 2: "dropWhile isspace (rev post @ d # rev mid @ [a]) = d # rev mid @ [a]"
    by simp
  show ?thesis by (simp add: strip_def 1 2)
qed

lemma letters_not_space:
  "\<not> isspace (CHR ''t'')" "\<not> isspace (CHR ''T'')" "\<not> isspace (CHR ''e'')" "\<not> isspace (CHR ''E'')"
  by (simp_all add: isspace_def)

text \<open>
  C9. \<open>NEED_PLAN\<close> holds exactly when the reply, stripped and lowercased, is
  \<open>true\<close>: the reply is the four letters t, r, u, e in either case, with nothing but
  white space around them. The replies \<open>yes\<close>, \<open>y\<close>, \<open>1\<close> and the empty line
  decline the plan.
\<close>

theorem NEED_PLAN_exactly_true:
  "(NEED_PLAN reply \<longleftrightarrow> lower (strip reply) = ''true'')
   \<and> (NEED_PLAN reply \<longleftrightarrow>
        (\<exists>pre a b c d post.
           reply = pre @ [a, b, c, d] @ post
           \<and> list_all isspace pre \<and> list_all isspace post
           \<and> a \<in> {CHR ''t'', CHR ''T''} \<and> b \<in> {CHR ''r'', CHR ''R''}
           \<and> c \<in> {CHR ''u'', CHR ''U''} \<and> d \<in> {CHR ''e'', CHR ''E''}))
   \<and> \<not> NEED_PLAN ''yes'' \<and> \<not> NEED_PLAN ''y'' \<and> \<not> NEED_PLAN ''1'' \<and> \<not> NEED_PLAN ''''"
proof (intro conjI)
  show "NEED_PLAN reply \<longleftrightarrow> lower (strip reply) = ''true''"
    by (simp add: NEED_PLAN_def)
  show "NEED_PLAN reply \<longleftrightarrow>
        (\<exists>pre a b c d post.
           reply = pre @ [a, b, c, d] @ post
           \<and> list_all isspace pre \<and> list_all isspace post
           \<and> a \<in> {CHR ''t'', CHR ''T''} \<and> b \<in> {CHR ''r'', CHR ''R''}
           \<and> c \<in> {CHR ''u'', CHR ''U''} \<and> d \<in> {CHR ''e'', CHR ''E''})"
    (is "_ \<longleftrightarrow> ?shape")
  proof
    assume "NEED_PLAN reply"
    then have "map lower_char (strip reply) = ''true''"
      by (simp add: NEED_PLAN_def lower_def)
    then obtain a b c d where core: "strip reply = [a, b, c, d]"
      and "lower_char a = CHR ''t''" "lower_char b = CHR ''r''"
      and "lower_char c = CHR ''u''" "lower_char d = CHR ''e''"
      by (auto simp add: map_eq_Cons_conv)
    then have letters: "a \<in> {CHR ''t'', CHR ''T''}" "b \<in> {CHR ''r'', CHR ''R''}"
      "c \<in> {CHR ''u'', CHR ''U''}" "d \<in> {CHR ''e'', CHR ''E''}"
      by (simp_all add: lower_t lower_r lower_u lower_e)
    let ?pre = "takeWhile isspace reply"
    let ?post = "rev (takeWhile isspace (rev (dropWhile isspace reply)))"
    have "reply = ?pre @ [a, b, c, d] @ ?post"
      using strip_decomp[of reply] core by simp
    moreover have "list_all isspace ?pre" "list_all isspace ?post"
      by (auto simp add: list_all_iff dest: set_takeWhileD)
    ultimately show ?shape using letters by blast
  next
    assume ?shape
    then obtain pre a b c d post where reply: "reply = pre @ [a, b, c, d] @ post"
      and sp: "list_all isspace pre" "list_all isspace post"
      and letters: "a \<in> {CHR ''t'', CHR ''T''}" "b \<in> {CHR ''r'', CHR ''R''}"
        "c \<in> {CHR ''u'', CHR ''U''}" "d \<in> {CHR ''e'', CHR ''E''}"
      by blast
    from letters have ns: "\<not> isspace a" "\<not> isspace d"
      using letters_not_space by auto
    from strip_core[OF sp ns, of "[b, c]"] reply have "strip reply = [a, b, c, d]" by simp
    moreover from letters have "map lower_char [a, b, c, d] = ''true''"
      by (simp add: lower_t lower_r lower_u lower_e)
    ultimately show "NEED_PLAN reply" by (simp add: NEED_PLAN_def lower_def)
  qed
  show "\<not> NEED_PLAN ''yes''" by code_simp
  show "\<not> NEED_PLAN ''y''" by code_simp
  show "\<not> NEED_PLAN ''1''" by code_simp
  show "\<not> NEED_PLAN ''''" by code_simp
qed

text \<open>
  C7. Planning runs if and only if it is requested. With a task and a reply on the
  input, a reply that declines makes the run the loop started from the world as the
  two questions left it, with no invocation; a reply that asks for the plan makes it the
  loop started after one invocation with \<open>/make_plan\<close> and the task, whatever that
  invocation printed and whatever its exit status.
\<close>

theorem planning_iff_requested:
  assumes "stdin w = linear_issue # reply # rest"
  shows "(\<not> NEED_PLAN reply \<longrightarrow>
            main claude w
              = while_loop claude True 0 (w\<lparr>stdin := rest, trace := trace w @ preamble\<rparr>))
       \<and> (NEED_PLAN reply \<longrightarrow>
            (\<forall>result f m.
               claude (memory w) (cmd (''/make_plan '' @ linear_issue)) (state_file w)
                 = Exits result f m \<longrightarrow>
               main claude w
                 = while_loop claude True 0
                     (w\<lparr>stdin := rest, state_file := f, memory := m,
                        trace := trace w @ preamble @
                          [Printed Generating_plan,
                           Printed (Running (JStr (''/make_plan '' @ linear_issue))),
                           Spawned (cmd (''/make_plan '' @ linear_issue)),
                           Printed (Text (stdout result))]\<rparr>)))"
  by (simp add: main_asks[OF assms] plan_phase_def run_claude_code_def emit_def Let_def)

theorem planning_iff_requested_witness:
  "main failing_claude (at_start [''Fix bug #42'', ''False''] Missing)
     = while_loop failing_claude True 0
         \<lparr>stdin = [], state_file = Missing, memory = (), trace = preamble\<rparr>
   \<and> main finishing_claude (at_start [''Fix bug #42'', '' True ''] Missing)
     = while_loop finishing_claude True 0
         \<lparr>stdin = [], state_file = Document completed, memory = (),
          trace = preamble @
            [Printed Generating_plan,
             Printed (Running (JStr ''/make_plan Fix bug #42'')),
             Spawned (cmd ''/make_plan Fix bug #42''),
             Printed (Text ''done'')]\<rparr>"
proof -
  have no: "\<not> NEED_PLAN ''False''"
    by code_simp
  have yes: "NEED_PLAN '' True ''"
    by code_simp
  have s1: "stdin (at_start [''Fix bug #42'', ''False''] Missing) = ''Fix bug #42'' # ''False'' # []"
    by (simp add: at_start_def)
  have s2: "stdin (at_start [''Fix bug #42'', '' True ''] Missing) = ''Fix bug #42'' # '' True '' # []"
    by (simp add: at_start_def)
  have ex: "finishing_claude (memory (at_start [''Fix bug #42'', '' True ''] Missing))
              (cmd (''/make_plan '' @ ''Fix bug #42''))
              (state_file (at_start [''Fix bug #42'', '' True ''] Missing))
            = Exits \<lparr>returncode = 0, stdout = ''done'', stderr = []\<rparr> (Document completed) ()"
    by (simp add: finishing_claude_def)
  note a = planning_iff_requested[where claude = failing_claude, OF s1, THEN conjunct1, THEN mp, OF no]
  note b = planning_iff_requested[where claude = finishing_claude, OF s2, THEN conjunct2, THEN mp, OF yes,
             THEN spec, THEN spec, THEN spec, THEN mp, OF ex]
  from a b show ?thesis by (simp add: at_start_def)
qed

subsection \<open>The driver loop\<close>

text \<open>
  C3 (as amended). A pass that reads a dict with a str prompt and a status other than
  \<open>completed\<close>, with a command that exits, reads the state once and runs the command
  once, with that prompt; the loop then goes on, and its next pass starts with the next
  read of the state file. Whatever the state read, a pass never runs the command more
  than once after its one read.
\<close>

theorem one_invocation_per_read:
  "(state_file w = Document state
    \<and> subscript state ''next_step_prompt'' = Inr (JStr p)
    \<and> subscript state ''status'' = Inr status
    \<and> status \<noteq> JStr ''completed''
    \<and> claude (memory w) (cmd p) (state_file w) = Exits result f m \<longrightarrow>
    (\<exists>new w'. loop_body claude i w = Some (Inr (True, i + 1), w')
           \<and> trace w' = trace w @ new
           \<and> reads_and_runs new = [Loaded (Inr state), Spawned (cmd p)]
           \<and> while_loop claude True i w = while_loop claude True (i + 1) w'
           \<and> (\<forall>r w''. loop_body claude (i + 1) w' = Some (r, w'') \<longrightarrow>
                (\<exists>more. trace w'' = trace w' @ Loaded (json_load_file f) # more))))
   \<and> (\<forall>r w'. loop_body claude i w = Some (r, w') \<longrightarrow>
         (\<exists>new. trace w' = trace w @ new
            \<and> (reads_and_runs new = [Loaded (json_load_file (state_file w))]
               \<or> (\<exists>argv. reads_and_runs new
                      = [Loaded (json_load_file (state_file w)), Spawned argv]))))"
proof (intro conjI allI impI)
  assume h: "state_file w = Document state
    \<and> subscript state ''next_step_prompt'' = Inr (JStr p)
    \<and> subscript state ''status'' = Inr status
    \<and> status \<noteq> JStr ''completed''
    \<and> claude (memory w) (cmd p) (state_file w) = Exits result f m"
  then have h1: "state_file w = Document state"
    and h2: "subscript state ''next_step_prompt'' = Inr (JStr p)"
    and h3: "subscript state ''status'' = Inr status"
    and h4: "status \<noteq> JStr ''completed''"
    and h5: "claude (memory w) (cmd p) (state_file w) = Exits result f m"
    by blast+
  let ?w' = "w\<lparr>state_file := f, memory := m, trace := trace w @ pass_events i state p result\<rparr>"
  from loop_body_usable[where claude = claude, OF h1 h2 h3 h5, of i] h4
  have lb: "loop_body claude i w = Some (Inr (True, i + 1), ?w')" by simp
  have "reads_and_runs (pass_events i state p result) = [Loaded (Inr state), Spawned (cmd p)]"
    by (simp add: pass_events_def)
  moreover have "\<forall>r w''. loop_body claude (i + 1) ?w' = Some (r, w'') \<longrightarrow>
                (\<exists>more. trace w'' = trace ?w' @ Loaded (json_load_file f) # more)"
    using loop_body_trace[of claude "i + 1" ?w'] by simp
  ultimately show "\<exists>new w'. loop_body claude i w = Some (Inr (True, i + 1), w')
           \<and> trace w' = trace w @ new
           \<and> reads_and_runs new = [Loaded (Inr state), Spawned (cmd p)]
           \<and> while_loop claude True i w = while_loop claude True (i + 1) w'
           \<and> (\<forall>r w''. loop_body claude (i + 1) w' = Some (r, w'') \<longrightarrow>
                (\<exists>more. trace w'' = trace w' @ Loaded (json_load_file f) # more))"
    using lb while_loop_step[OF lb]
    by (intro exI[of _ "pass_events i state p result"] exI[of _ ?w']) simp
next
  fix r w'
  assume "loop_body claude i w = Some (r, w')"
  from loop_body_effects[OF this]
  show "\<exists>new. trace w' = trace w @ new
            \<and> (reads_and_runs new = [Loaded (json_load_file (state_file w))]
               \<or> (\<exists>argv. reads_and_runs new
                      = [Loaded (json_load_file (state_file w)), Spawned argv]))"
    by blast
qed

theorem one_invocation_per_read_witness:
  "(\<exists>new w'. loop_body failing_claude 0 (at_start [] (Document in_progress))
               = Some (Inr (True, 1), w')
     \<and> trace w' = new
     \<and> reads_and_runs new = [Loaded (Inr in_progress), Spawned (cmd ''run tests'')])
   \<and> (\<exists>argv. reads_and_runs
          [Loaded (Inr in_progress), Printed (Starting 1),
           Printed (Running (JStr ''run tests'')), Spawned (cmd ''run tests''),
           Printed (Text ''boom'')]
        = [Loaded (Inr in_progress), Spawned argv])"
proof -
  let ?w = "at_start [] (Document in_progress)"
  have usable: "state_file ?w = Document in_progress
    \<and> subscript in_progress ''next_step_prompt'' = Inr (JStr ''run tests'')
    \<and> subscript in_progress ''status'' = Inr (JStr ''in_progress'')
    \<and> JStr ''in_progress'' \<noteq> JStr ''completed''
    \<and> failing_claude (memory ?w) (cmd ''run tests'') (state_file ?w)
        = Exits \<lparr>returncode = 1, stdout = ''boom'', stderr = ''error''\<rparr> (Document in_progress) ()"
    by (simp add: at_start_def in_progress_def subscript_def failing_claude_def)
  have pass: "loop_body failing_claude 0 ?w
      = Some (Inr (True, 1),
          \<lparr>stdin = [], state_file = Document in_progress, memory = (),
           trace = [Loaded (Inr in_progress), Printed (Starting 1),
                    Printed (Running (JStr ''run tests'')), Spawned (cmd ''run tests''),
                    Printed (Text ''boom'')]\<rparr>)"
    by (simp add: loop_body_def check_state_def json_load_file_def run_claude_code_def
        emit_def Let_def subscript_def at_start_def in_progress_def failing_claude_def)
  from one_invocation_per_read[where claude = failing_claude and w = ?w and i = 0,
         THEN conjunct1, THEN mp, OF usable]
  have a: "\<exists>new w'. loop_body failing_claude 0 ?w = Some (Inr (True, 1), w')
     \<and> trace w' = new
     \<and> reads_and_runs new = [Loaded (Inr in_progress), Spawned (cmd ''run tests'')]"
    by (simp add: at_start_def) blast
  from one_invocation_per_read[where claude = failing_claude and w = ?w and i = 0,
         THEN conjunct2, THEN spec, THEN spec, THEN mp, OF pass]
  have b: "\<exists>argv. reads_and_runs
          [Loaded (Inr in_progress), Printed (Starting 1),
           Printed (Running (JStr ''run tests'')), Spawned (cmd ''run tests''),
           Printed (Text ''boom'')]
        = [Loaded (Inr in_progress), Spawned argv]"
    by (simp add: at_start_def json_load_file_def)
  from a b show ?thesis by blast
qed

text \<open>
  C3 as first stated fails: a record may come without a prompt, and on the record
  with the status \<open>in_progress\<close> alone the pass ends in \<open>KeyError\<close> after its read,
  with no invocation at all.
\<close>

theorem no_prompt_no_invocation:
  "loop_body failing_claude 0 (at_start [] (Document (bare_status ''in_progress'')))
     = Some (Inl KeyError,
         \<lparr>stdin = [], state_file = Document (bare_status ''in_progress''), memory = (),
          trace = [Loaded (Inr (bare_status ''in_progress'')), Printed (Starting 1)]\<rparr>)"
  by (simp add: loop_body_def check_state_def json_load_file_def emit_def Let_def
      subscript_def at_start_def bare_status_def)




text \<open>
  C4 (as amended). The loop falls out only after it has read a state with the status
  \<open>completed\<close>, and it does fall out on such a state when the state also has a str
  prompt and the command exits. It has no bound on its passes and no pause, in a pass
  or between two: while the states read are dicts with a str prompt and a status other
  than \<open>completed\<close> and the command exits, the loop has no result, and after any
  number \<open>n\<close> of passes it is still running, at iteration \<open>n\<close>; and no run, ended or
  cut after any number of passes, has a pause in its trace.
\<close>

theorem while_loop_has_no_bound:
  "(\<forall>state p result f m.
      state_file w = Document state
      \<and> subscript state ''next_step_prompt'' = Inr (JStr p)
      \<and> subscript state ''status'' = Inr (JStr ''completed'')
      \<and> claude (memory w) (cmd p) (state_file w) = Exits result f m \<longrightarrow>
      while_loop claude True i w
        = Some (Inr (),
            w\<lparr>state_file := f, memory := m,
              trace := trace w @
                [Loaded (Inr state), Printed (Starting (i + 1)), Printed (Running (JStr p)),
                 Spawned (cmd p), Printed (Text (stdout result)), Printed Stopping]\<rparr>))
   \<and> (\<forall>w'. while_loop claude True i w = Some (Inr (), w') \<longrightarrow>
         (\<exists>new state. trace w' = trace w @ new \<and> Loaded (Inr state) \<in> set new
            \<and> subscript state ''status'' = Inr (JStr ''completed'')))
   \<and> (Inv (memory w) (state_file w)
        \<and> (\<forall>m f. Inv m f \<longrightarrow>
              (\<exists>state p status result f' m'.
                 f = Document state
                 \<and> subscript state ''next_step_prompt'' = Inr (JStr p)
                 \<and> subscript state ''status'' = Inr status \<and> status \<noteq> JStr ''completed''
                 \<and> claude m (cmd p) f = Exits result f' m' \<and> Inv m' f')) \<longrightarrow>
        while_loop claude True i w = None
        \<and> (\<forall>n. \<exists>w'. passes claude n True i w = Some (Inr (True, i + int n), w')))
   \<and> (\<forall>n r w'. passes claude n True i w = Some (r, w') \<longrightarrow>
         (\<exists>new. trace w' = trace w @ new \<and> pauses new = []))
   \<and> (\<forall>r w'. while_loop claude True i w = Some (r, w') \<longrightarrow>
         (\<exists>new. trace w' = trace w @ new \<and> pauses new = []))"
proof (intro conjI allI impI)
  fix state p result f m
  assume h: "state_file w = Document state
      \<and> subscript state ''next_step_prompt'' = Inr (JStr p)
      \<and> subscript state ''status'' = Inr (JStr ''completed'')
      \<and> claude (memory w) (cmd p) (state_file w) = Exits result f m"
  then have h1: "state_file w = Document state"
    and h2: "subscript state ''next_step_prompt'' = Inr (JStr p)"
    and h3: "subscript state ''status'' = Inr (JStr ''completed'')"
    and h4: "claude (memory w) (cmd p) (state_file w) = Exits result f m"
    by blast+
  from loop_body_usable[where claude = claude, OF h1 h2 h3 h4, of i]
  have lb: "loop_body claude i w = Some (Inr (False, i + 1),
      w\<lparr>state_file := f, memory := m,
        trace := trace w @ pass_events i state p result @ [Printed Stopping]\<rparr>)"
    by simp
  show "while_loop claude True i w
        = Some (Inr (),
            w\<lparr>state_file := f, memory := m,
              trace := trace w @
                [Loaded (Inr state), Printed (Starting (i + 1)), Printed (Running (JStr p)),
                 Spawned (cmd p), Printed (Text (stdout result)), Printed Stopping]\<rparr>)"
    by (simp add: while_loop_step[OF lb] while_loop_done pass_events_def)
next
  fix w'
  assume "while_loop claude True i w = Some (Inr (), w')"
  from while_loop_exit_seen[OF this]
  show "\<exists>new state. trace w' = trace w @ new \<and> Loaded (Inr state) \<in> set new
            \<and> subscript state ''status'' = Inr (JStr ''completed'')"
    by simp
next
  assume h: "Inv (memory w) (state_file w)
        \<and> (\<forall>m f. Inv m f \<longrightarrow>
              (\<exists>state p status result f' m'.
                 f = Document state
                 \<and> subscript state ''next_step_prompt'' = Inr (JStr p)
                 \<and> subscript state ''status'' = Inr status \<and> status \<noteq> JStr ''completed''
                 \<and> claude m (cmd p) f = Exits result f' m' \<and> Inv m' f'))"
  then have inv: "Inv (memory w) (state_file w)"
    and step: "\<And>m f. Inv m f \<Longrightarrow>
              \<exists>state p status result f' m'.
                 f = Document state
                 \<and> subscript state ''next_step_prompt'' = Inr (JStr p)
                 \<and> subscript state ''status'' = Inr status \<and> status \<noteq> JStr ''completed''
                 \<and> claude m (cmd p) f = Exits result f' m' \<and> Inv m' f'"
    by blast+
  show "while_loop claude True i w = None"
  proof (cases "while_loop claude True i w")
    case None
    then show ?thesis .
  next
    case (Some y)
    from while_loop_never_leaves[where Inv = Inv, OF Some step] inv show ?thesis by simp
  qed
  fix n
  from passes_keep_running[where Inv = Inv and claude = claude, OF step inv, of n i]
  show "\<exists>w'. passes claude n True i w = Some (Inr (True, i + int n), w')" by blast
next
  fix n r w'
  assume "passes claude n True i w = Some (r, w')"
  from passes_quiet[OF this]
  show "\<exists>new. trace w' = trace w @ new \<and> pauses new = []" .
next
  fix r w'
  assume "while_loop claude True i w = Some (r, w')"
  from while_loop_quiet[OF this]
  show "\<exists>new. trace w' = trace w @ new \<and> pauses new = []" by simp
qed

theorem while_loop_has_no_bound_witness:
  "while_loop finishing_claude True 0 (at_start [] (Document completed))
     = Some (Inr (),
         \<lparr>stdin = [], state_file = Document completed, memory = (),
          trace = [Loaded (Inr completed), Printed (Starting 1),
                   Printed (Running (JStr ''run tests'')), Spawned (cmd ''run tests''),
                   Printed (Text ''done''), Printed Stopping]\<rparr>)
   \<and> (\<exists>new state.
          [Loaded (Inr completed), Printed (Starting 1),
           Printed (Running (JStr ''run tests'')), Spawned (cmd ''run tests''),
           Printed (Text ''done''), Printed Stopping] = new
          \<and> Loaded (Inr state) \<in> set new
          \<and> subscript state ''status'' = Inr (JStr ''completed''))
   \<and> while_loop failing_claude True 0 (at_start [] (Document in_progress)) = None
   \<and> (\<exists>w'. passes failing_claude 1000 True 0 (at_start [] (Document in_progress))
               = Some (Inr (True, 1000), w'))
   \<and> pauses
         [Loaded (Inr completed), Printed (Starting 1),
          Printed (Running (JStr ''run tests'')), Spawned (cmd ''run tests''),
          Printed (Text ''done''), Printed Stopping] = []
   \<and> pauses
         [Loaded (Inr in_progress), Printed (Starting 1),
          Printed (Running (JStr ''run tests'')), Spawned (cmd ''run tests''),
          Printed (Text ''boom'')] = []"
proof -
  let ?done = "at_start [] (Document completed)"
  let ?busy = "at_start [] (Document in_progress)"
  have fin: "state_file ?done = Document completed
      \<and> subscript completed ''next_step_prompt'' = Inr (JStr ''run tests'')
      \<and> subscript completed ''status'' = Inr (JStr ''completed'')
      \<and> finishing_claude (memory ?done) (cmd ''run tests'') (state_file ?done)
          = Exits \<lparr>returncode = 0, stdout = ''done'', stderr = []\<rparr> (Document completed) ()"
    by (simp add: at_start_def completed_def subscript_def finishing_claude_def)
  have busy: "(\<lambda>m f. f = Document in_progress) (memory ?busy) (state_file ?busy)
        \<and> (\<forall>m f. (\<lambda>m f. f = Document in_progress) m f \<longrightarrow>
              (\<exists>state p status result f' m'.
                 f = Document state
                 \<and> subscript state ''next_step_prompt'' = Inr (JStr p)
                 \<and> subscript state ''status'' = Inr status \<and> status \<noteq> JStr ''completed''
                 \<and> failing_claude m (cmd p) f = Exits result f' m'
                 \<and> (\<lambda>m f. f = Document in_progress) m' f'))"
    by (simp add: at_start_def in_progress_def subscript_def failing_claude_def)
  note a = while_loop_has_no_bound[where claude = finishing_claude and w = ?done and i = 0,
             THEN conjunct1, THEN spec, THEN spec, THEN spec, THEN spec, THEN spec, THEN mp, OF fin]
  note b = while_loop_has_no_bound[where claude = failing_claude and w = ?busy and i = 0
             and Inv = "\<lambda>m f. f = Document in_progress",
             THEN conjunct2, THEN conjunct2, THEN conjunct1, THEN mp, OF busy]
  note c = while_loop_has_no_bound[where claude = finishing_claude and w = ?done and i = 0,
             THEN conjunct2, THEN conjunct1, THEN spec, THEN mp, OF a]
  from b have many: "\<exists>w'. passes failing_claude 1000 True 0 ?busy = Some (Inr (True, 0 + int 1000), w')"
    by blast
  have one: "passes failing_claude (Suc 0) True 0 ?busy
      = Some (Inr (True, 1),
          \<lparr>stdin = [], state_file = Document in_progress, memory = (),
           trace = [Loaded (Inr in_progress), Printed (Starting 1),
                    Printed (Running (JStr ''run tests'')), Spawned (cmd ''run tests''),
                    Printed (Text ''boom'')]\<rparr>)"
    by (simp add: loop_body_def check_state_def json_load_file_def run_claude_code_def
        emit_def Let_def subscript_def at_start_def in_progress_def failing_claude_def)
  note d = while_loop_has_no_bound[where claude = failing_claude and w = ?busy and i = 0,
             THEN conjunct2, THEN conjunct2, THEN conjunct2, THEN conjunct1,
             THEN spec, THEN spec, THEN spec, THEN mp, OF one]
  note e = while_loop_has_no_bound[where claude = finishing_claude and w = ?done and i = 0,
             THEN conjunct2, THEN conjunct2, THEN conjunct2, THEN conjunct2,
             THEN spec, THEN spec, THEN mp, OF a]
  from d have d': "pauses
         [Loaded (Inr in_progress), Printed (Starting 1),
          Printed (Running (JStr ''run tests'')), Spawned (cmd ''run tests''),
          Printed (Text ''boom'')] = []"
    by (simp add: at_start_def)
  from e have e': "pauses
         [Loaded (Inr completed), Printed (Starting 1),
          Printed (Running (JStr ''run tests'')), Spawned (cmd ''run tests''),
          Printed (Text ''done''), Printed Stopping] = []"
    by (simp add: at_start_def)
  from a b c d' e' many show ?thesis by (simp add: at_start_def)
qed

text \<open>
  C4 as first stated fails on records without a prompt: with the status
  \<open>completed\<close> alone the loop does not fall out but ends in \<open>KeyError\<close>, and with
  the status \<open>in_progress\<close> alone, never \<open>completed\<close>, it ends all the same.
\<close>

theorem while_loop_ends_in_KeyError:
  "while_loop failing_claude True 0 (at_start [] (Document (bare_status ''completed'')))
     = Some (Inl KeyError,
         \<lparr>stdin = [], state_file = Document (bare_status ''completed''), memory = (),
          trace = [Loaded (Inr (bare_status ''completed'')), Printed (Starting 1)]\<rparr>)
   \<and> while_loop failing_claude True 0 (at_start [] (Document (bare_status ''in_progress'')))
     = Some (Inl KeyError,
         \<lparr>stdin = [], state_file = Document (bare_status ''in_progress''), memory = (),
          trace = [Loaded (Inr (bare_status ''in_progress'')), Printed (Starting 1)]\<rparr>)"
  by (simp add: at_start_def bare_status_raises)

subsection \<open>Where the script leaves its own comments behind\<close>

text \<open>
  C1. With no state file, or with one that is not JSON, \<open>check_state\<close> returns
  \<open>None\<close> and the first pass subscripts it: the run ends in an unhandled
  \<open>TypeError\<close> before any invocation. The comment above the script's top level says
  the prompt is taken from the state "if not none".
\<close>

theorem absent_state_raises:
  "main claude \<lparr>stdin = [''Fix bug #42'', ''False''], state_file = Missing, memory = m, trace = []\<rparr>
     = Some (Inl TypeError,
         \<lparr>stdin = [], state_file = Missing, memory = m,
          trace = preamble @ [Loaded (Inl FileNotFoundError), Printed (Starting 1)]\<rparr>)
   \<and> main claude \<lparr>stdin = [''Fix bug #42'', ''False''], state_file = Malformed, memory = m, trace = []\<rparr>
     = Some (Inl TypeError,
         \<lparr>stdin = [], state_file = Malformed, memory = m,
          trace = preamble @ [Loaded (Inl JSONDecodeError), Printed (Starting 1)]\<rparr>)"
proof -
  have no: "\<not> NEED_PLAN ''False''" by code_simp
  have body: "\<And>f e. json_load_file f = Inl e \<Longrightarrow> e = FileNotFoundError \<or> e = JSONDecodeError \<Longrightarrow>
    while_loop claude True 0 \<lparr>stdin = [], state_file = f, memory = m, trace = preamble\<rparr>
      = Some (Inl TypeError, \<lparr>stdin = [], state_file = f, memory = m,
          trace = preamble @ [Loaded (Inl e), Printed (Starting 1)]\<rparr>)"
    by (subst while_loop.simps)
       (auto simp add: loop_body_def check_state_def emit_def Let_def subscript_def)
  show ?thesis
    by (simp add: main_asks[of _ "''Fix bug #42''" "''False''" "[]"] no plan_phase_def body
        json_load_file_def)
qed

text \<open>
  C2. The status tested after an invocation is the one read before it. A command that
  writes the status \<open>completed\<close> on its first run is run a second time before the
  loop stops; if it writes the status alone, the second pass ends in an unhandled
  \<open>KeyError\<close>. The comment above the test says the status file is checked there.
\<close>

theorem status_tested_is_stale:
  "main finishing_claude (at_start [''Fix bug #42'', ''False''] (Document in_progress))
     = Some (Inr (),
         \<lparr>stdin = [], state_file = Document completed, memory = (),
          trace = preamble @
            [Loaded (Inr in_progress), Printed (Starting 1),
             Printed (Running (JStr ''run tests'')), Spawned (cmd ''run tests''),
             Printed (Text ''done''),
             Loaded (Inr completed), Printed (Starting 2),
             Printed (Running (JStr ''run tests'')), Spawned (cmd ''run tests''),
             Printed (Text ''done''), Printed Stopping]\<rparr>)
   \<and> map_option fst
         (main status_only_claude (at_start [''Fix bug #42'', ''False''] (Document in_progress)))
     = Some (Inl KeyError)"
proof -
  have no: "\<not> NEED_PLAN ''False''" by code_simp
  have p1: "loop_body finishing_claude 0
      \<lparr>stdin = [], state_file = Document in_progress, memory = (), trace = preamble\<rparr>
    = Some (Inr (True, 1),
        \<lparr>stdin = [], state_file = Document completed, memory = (),
          trace = preamble @ pass_events 0 in_progress ''run tests''
            \<lparr>returncode = 0, stdout = ''done'', stderr = []\<rparr>\<rparr>)"
    by (subst loop_body_usable[where state = in_progress and p = "''run tests''"
          and status = "JStr ''in_progress''" and f = "Document completed" and m = "()"
          and result = "\<lparr>returncode = 0, stdout = ''done'', stderr = []\<rparr>"])
       (simp_all add: in_progress_def subscript_def finishing_claude_def)
  have p2: "loop_body finishing_claude 1
      \<lparr>stdin = [], state_file = Document completed, memory = (),
          trace = preamble @ pass_events 0 in_progress ''run tests''
            \<lparr>returncode = 0, stdout = ''done'', stderr = []\<rparr>\<rparr>
    = Some (Inr (False, 2),
        \<lparr>stdin = [], state_file = Document completed, memory = (),
          trace = (preamble @ pass_events 0 in_progress ''run tests''
            \<lparr>returncode = 0, stdout = ''done'', stderr = []\<rparr>)
            @ pass_events 1 completed ''run tests''
            \<lparr>returncode = 0, stdout = ''done'', stderr = []\<rparr> @ [Printed Stopping]\<rparr>)"
    by (subst loop_body_usable[where state = completed and p = "''run tests''"
          and status = "JStr ''completed''" and f = "Document completed" and m = "()"
          and result = "\<lparr>returncode = 0, stdout = ''done'', stderr = []\<rparr>"])
       (simp_all add: completed_def subscript_def finishing_claude_def)
  have q1: "loop_body status_only_claude 0
      \<lparr>stdin = [], state_file = Document in_progress, memory = (), trace = preamble\<rparr>
    = Some (Inr (True, 1),
        \<lparr>stdin = [], state_file = Document (JObj [(''status'', JStr ''completed'')]), memory = (),
          trace = preamble @ pass_events 0 in_progress ''run tests''
            \<lparr>returncode = 0, stdout = ''done'', stderr = []\<rparr>\<rparr>)"
    by (subst loop_body_usable[where state = in_progress and p = "''run tests''"
          and status = "JStr ''in_progress''"
          and f = "Document (JObj [(''status'', JStr ''completed'')])" and m = "()"
          and result = "\<lparr>returncode = 0, stdout = ''done'', stderr = []\<rparr>"])
       (simp_all add: in_progress_def subscript_def status_only_claude_def)
  have q2: "\<And>tr. map_option fst (loop_body status_only_claude 1
      \<lparr>stdin = [], state_file = Document (JObj [(''status'', JStr ''completed'')]), memory = (),
          trace = tr\<rparr>) = Some (Inl KeyError)"
    by (simp add: loop_body_def check_state_def json_load_file_def emit_def Let_def subscript_def)
  have q3: "map_option fst (while_loop status_only_claude True 1
      \<lparr>stdin = [], state_file = Document (JObj [(''status'', JStr ''completed'')]), memory = (),
          trace = preamble @ pass_events 0 in_progress ''run tests''
            \<lparr>returncode = 0, stdout = ''done'', stderr = []\<rparr>\<rparr>) = Some (Inl KeyError)"
    using q2[of "preamble @ pass_events 0 in_progress ''run tests''
            \<lparr>returncode = 0, stdout = ''done'', stderr = []\<rparr>"]
    by (subst while_loop.simps) (auto split: option.splits sum.splits prod.splits)
  have "main finishing_claude (at_start [''Fix bug #42'', ''False''] (Document in_progress))
      = while_loop finishing_claude True 0
          \<lparr>stdin = [], state_file = Document in_progress, memory = (), trace = preamble\<rparr>"
    by (simp add: main_asks[of _ "''Fix bug #42''" "''False''" "[]"] no plan_phase_def at_start_def)
  also note while_loop_step[OF p1]
  also note while_loop_step[OF p2]
  also note while_loop_done
  finally have a: "main finishing_claude (at_start [''Fix bug #42'', ''False''] (Document in_progress))
      = Some (Inr (),
        \<lparr>stdin = [], state_file = Document completed, memory = (),
          trace = (preamble @ pass_events 0 in_progress ''run tests''
            \<lparr>returncode = 0, stdout = ''done'', stderr = []\<rparr>)
            @ pass_events 1 completed ''run tests''
            \<lparr>returncode = 0, stdout = ''done'', stderr = []\<rparr> @ [Printed Stopping]\<rparr>)" .
  have "main status_only_claude (at_start [''Fix bug #42'', ''False''] (Document in_progress))
      = while_loop status_only_claude True 0
          \<lparr>stdin = [], state_file = Document in_progress, memory = (), trace = preamble\<rparr>"
    by (simp add: main_asks[of _ "''Fix bug #42''" "''False''" "[]"] no plan_phase_def at_start_def)
  also note while_loop_step[OF q1]
  finally have b: "map_option fst
      (main status_only_claude (at_start [''Fix bug #42'', ''False''] (Document in_progress)))
      = Some (Inl KeyError)"
    using q3 by simp
  from a b show ?thesis by (simp add: pass_events_def)
qed

end
